theory Spec2Isabelle
  imports Complex_Main "HOL-Library.Word"
begin

section \<open>The escape function of \<^verbatim>\<open>cplane_np.py\<close>\<close>

text \<open>
  Python's \<^verbatim>\<open>complex\<close> is modelled by \<^typ>\<open>complex\<close> and Python's \<^verbatim>\<open>float\<close> by
  \<^typ>\<open>real\<close>: arithmetic is exact, rounding is not modelled.  Python's \<^verbatim>\<open>int\<close> is
  \<^typ>\<open>int\<close>; \<^verbatim>\<open>abs(z)\<close> is \<^term>\<open>cmod z\<close>.

  The functions \<^verbatim>\<open>julia(c, max)\<close> and \<^verbatim>\<open>juliaNV(c, max)\<close> return a closure \<^verbatim>\<open>f\<close>
  with the same body:
  \<^verbatim>\<open>
    def f(z):
        if abs( z ) <= 2:
            n = 0
            while abs(z)<=2:
                z = z**2 + c
                if n >= max:
                    n = 1
                    break
                n+=1
            n -= 1
        else:
            n = 1
        return n
  \<close>
\<close>

text \<open>The assignment \<^verbatim>\<open>z = z**2 + c\<close>.\<close>

definition julia_step :: "complex \<Rightarrow> complex \<Rightarrow> complex" where
  "julia_step c z = z ^ 2 + c"

text \<open>
  The \<^verbatim>\<open>while\<close> loop, started with the current values of \<^verbatim>\<open>z\<close> and \<^verbatim>\<open>n\<close>.  It returns
  the value of \<^verbatim>\<open>n\<close> when the loop is left, together with a counter \<open>k\<close> of the
  executions of \<^verbatim>\<open>z = z**2 + c\<close> (the counter is not a variable of the program; it
  records how many iterations were performed).
\<close>

function julia_loop :: "complex \<Rightarrow> int \<Rightarrow> complex \<Rightarrow> int \<Rightarrow> nat \<Rightarrow> int \<times> nat" where
  "julia_loop c mx z n k =
     (if cmod z \<le> 2
      then (if n \<ge> mx then (1, Suc k)
            else julia_loop c mx (julia_step c z) (n + 1) (Suc k))
      else (n, k))"
  by pat_completeness auto
termination
  by (relation "measure (\<lambda>(c, mx, z, n, k). nat (mx - n))") auto

text \<open>The body of \<^verbatim>\<open>f\<close>: the returned \<^verbatim>\<open>n\<close> and the number of iterations performed.\<close>

definition f_body :: "complex \<Rightarrow> int \<Rightarrow> complex \<Rightarrow> int \<times> nat" where
  "f_body c mx z =
     (if cmod z \<le> 2
      then (case julia_loop c mx z 0 0 of (n, k) \<Rightarrow> (n - 1, k))
      else (1, 0))"

text \<open>\<^verbatim>\<open>juliaNV(c, max)\<close> returns the plain Python function.\<close>

definition juliaNV :: "complex \<Rightarrow> int \<Rightarrow> complex \<Rightarrow> int" where
  "juliaNV c mx z = fst (f_body c mx z)"

text \<open>
  \<^verbatim>\<open>julia(c, max)\<close> decorates the same body with
  \<^verbatim>\<open>@nb.vectorize([nb.int32(nb.complex128)])\<close>: the result is converted to a signed
  32-bit integer.
\<close>

definition int32 :: "int \<Rightarrow> int" where
  "int32 i = sint (word_of_int i :: 32 word)"

definition julia :: "complex \<Rightarrow> int \<Rightarrow> complex \<Rightarrow> int" where
  "julia c mx z = int32 (fst (f_body c mx z))"

text \<open>The number of executions of \<^verbatim>\<open>z = z**2 + c\<close> in one call of \<^verbatim>\<open>f\<close>.\<close>

definition f_iterations :: "complex \<Rightarrow> int \<Rightarrow> complex \<Rightarrow> nat" where
  "f_iterations c mx z = snd (f_body c mx z)"

text \<open>The orbit of \<open>z0\<close>: the value of \<^verbatim>\<open>z\<close> after \<open>k\<close> assignments \<^verbatim>\<open>z = z**2 + c\<close>.\<close>

definition orbit :: "complex \<Rightarrow> complex \<Rightarrow> nat \<Rightarrow> complex" where
  "orbit c z0 k = (julia_step c ^^ k) z0"


section \<open>The planes\<close>

text \<open>
  Exceptions of Python and numpy that the modelled methods can raise.  A method of a
  plane that raises leaves the object in the state reached so far, so a method returns
  \<open>Inl (e, p')\<close> (exception \<open>e\<close> raised, object left as \<open>p'\<close>) or \<open>Inr p'\<close>
  (normal return, object now \<open>p'\<close>).
\<close>

datatype error = ZeroDivisionError | ValueError | IndexError | TypeError

text \<open>
  A cell of the stored \<^verbatim>\<open>DataFrame\<close>: a \<^verbatim>\<open>complex128\<close> in the array built by
  \<^verbatim>\<open>x + y*1j\<close>, a \<^verbatim>\<open>float64\<close> in the array built by \<^verbatim>\<open>np.zeros\<close>.
\<close>

datatype cell = CComplex complex | CFloat real

fun cell_value :: "cell \<Rightarrow> complex" where
  "cell_value (CComplex z) = z"
| "cell_value (CFloat r) = complex_of_real r"

fun is_CComplex :: "cell \<Rightarrow> bool" where
  "is_CComplex (CComplex z) = True"
| "is_CComplex (CFloat r) = False"

text \<open>The closures stored in \<^verbatim>\<open>self.f\<close>: \<^verbatim>\<open>julia(c, max)\<close> and \<^verbatim>\<open>juliaNV(c, max)\<close>.\<close>

datatype transform = Closure_julia complex int | Closure_juliaNV complex int

fun apply_f :: "transform \<Rightarrow> complex \<Rightarrow> int" where
  "apply_f (Closure_julia c mx) z = julia c mx z"
| "apply_f (Closure_juliaNV c mx) z = juliaNV c mx z"

text \<open>
  The two classes that apply the escape function.  \<^verbatim>\<open>JuliaPlane\<close> inherits \<^verbatim>\<open>refresh\<close>
  and \<^verbatim>\<open>zoom\<close> from \<^verbatim>\<open>ComplexPlaneNP\<close>; \<^verbatim>\<open>JuliaPlaneNV\<close> inherits \<^verbatim>\<open>zoom\<close> and the
  file methods and overrides \<^verbatim>\<open>refresh\<close> and \<^verbatim>\<open>set_f\<close>.
\<close>

datatype plane_class = JuliaPlane | JuliaPlaneNV

text \<open>
  The attributes of a plane object.  \<open>func\<close> is \<^verbatim>\<open>self.f\<close>, \<open>maxloop\<close> is
  \<^verbatim>\<open>self.max\<close>, \<open>cconst\<close> is \<^verbatim>\<open>self.c\<close>; \<open>index\<close>, \<open>columns\<close> and \<open>contents\<close> are
  the row labels, the column labels and the values of \<^verbatim>\<open>self.plane\<close>.  A label is the
  number that the code passes to \<^verbatim>\<open>str\<close>.
\<close>

record plane =
  cls :: plane_class
  xmin :: real
  xmax :: real
  ymin :: real
  ymax :: real
  xlen :: int
  ylen :: int
  xstep :: real
  ystep :: real
  func :: transform
  maxloop :: int
  cconst :: complex
  index :: "real list"
  columns :: "real list"
  contents :: "cell list list"

text \<open>Python's \<^verbatim>\<open>a / b\<close> with a float \<open>a\<close> and an int \<open>b\<close>.\<close>

definition truediv :: "real \<Rightarrow> int \<Rightarrow> error + real" where
  "truediv a b = (if b = 0 then Inl ZeroDivisionError else Inr (a / real_of_int b))"

text \<open>
  \<^verbatim>\<open>np.linspace(start, stop, num)\<close>: \<open>num\<close> evenly spaced samples from \<open>start\<close> to
  \<open>stop\<close> inclusive; a negative \<open>num\<close> is a \<^verbatim>\<open>ValueError\<close>, and a single sample is
  \<open>start\<close>.
\<close>

definition linspace :: "real \<Rightarrow> real \<Rightarrow> int \<Rightarrow> error + real list" where
  "linspace start stop num =
     (if num < 0 then Inl ValueError
      else if num = 1 then Inr [start]
      else Inr (map (\<lambda>j. start + real j * ((stop - start) / real_of_int (num - 1)))
                    [0..<nat num]))"

text \<open>The label lists that both \<^verbatim>\<open>refresh\<close> methods build.\<close>

definition ylabels :: "plane \<Rightarrow> real list" where
  "ylabels p = map (\<lambda>ypos. ymax p - real ypos * ystep p) [0..<nat (ylen p)]"

definition xlabels :: "plane \<Rightarrow> real list" where
  "xlabels p = map (\<lambda>xpos. real xpos * xstep p + xmin p) [0..<nat (xlen p)]"

text \<open>
  \<^verbatim>\<open>ComplexPlaneNP.refresh\<close>, inherited by \<^verbatim>\<open>JuliaPlane\<close>:
  \<^verbatim>\<open>
    rx = np.linspace( self.xmin, self.xmax, self.xlen )
    ry = np.linspace( self.ymin, self.ymax, self.ylen )
    x, y = np.meshgrid( rx, ry )
    planeArray = x + y*1j
    self.f( planeArray )
    ylabels = [str(self.ymax-ypos*self.ystep) for ypos in range(self.ylen)]
    xlabels = [str(xpos*self.xstep+self.xmin) for xpos in range(self.xlen)]
    self.plane = pd.DataFrame(planeArray, index=ylabels, columns=xlabels)
  \<close>
  \<^verbatim>\<open>np.meshgrid\<close> gives one row for each element of \<open>ry\<close> and one column for each
  element of \<open>rx\<close>.  The vectorized \<^verbatim>\<open>self.f\<close> returns a new array; the statement
  \<^verbatim>\<open>self.f( planeArray )\<close> does not bind it, and \<open>planeArray\<close> is what is stored.
\<close>

definition refresh_NP :: "plane \<Rightarrow> (error \<times> plane) + plane" where
  "refresh_NP p =
     (case linspace (xmin p) (xmax p) (xlen p) of
        Inl e \<Rightarrow> Inl (e, p)
      | Inr rx \<Rightarrow>
         (case linspace (ymin p) (ymax p) (ylen p) of
            Inl e \<Rightarrow> Inl (e, p)
          | Inr ry \<Rightarrow>
             (let planeArray = map (\<lambda>y. map (\<lambda>x. Complex x y) rx) ry;
                  unbound = map (map (apply_f (func p))) planeArray
              in Inr (p\<lparr>index := ylabels p, columns := xlabels p,
                        contents := map (map CComplex) planeArray\<rparr>))))"

text \<open>
  \<^verbatim>\<open>planeArray[r, col] = v\<close> on a two-dimensional array with non-negative indices: an
  index beyond a dimension is an \<^verbatim>\<open>IndexError\<close>.
\<close>

definition setitem :: "cell list list \<Rightarrow> nat \<Rightarrow> nat \<Rightarrow> cell \<Rightarrow> error + cell list list" where
  "setitem A r col v =
     (if r < length A \<and> col < length (A ! r) then Inr (A[r := (A ! r)[col := v]])
      else Inl IndexError)"

text \<open>
  \<^verbatim>\<open>JuliaPlaneNV.refresh\<close>:
  \<^verbatim>\<open>
    planeArray = np.zeros([self.xlen,self.ylen])
    for xpos in range(self.xlen):
        for ypos in range(self.ylen):
            planeArray[(self.ylen-ypos-1),xpos] = self.f( (xpos*self.xstep+self.xmin) + (ypos*self.ystep+self.ymin)*1j )
    ylabels = ...
    xlabels = ...
    self.plane = pd.DataFrame(planeArray, index=ylabels, columns=xlabels)
  \<close>
  The inner loop over the remaining values of \<open>ypos\<close>, then the outer loop over the
  remaining values of \<open>xpos\<close>.
\<close>

fun nv_inner :: "plane \<Rightarrow> nat \<Rightarrow> nat list \<Rightarrow> cell list list \<Rightarrow> error + cell list list" where
  "nv_inner p xpos [] A = Inr A"
| "nv_inner p xpos (ypos # yposs) A =
     (case setitem A (nat (ylen p) - ypos - 1) xpos
             (CFloat (real_of_int (apply_f (func p)
                (Complex (real xpos * xstep p + xmin p) (real ypos * ystep p + ymin p)))))
      of Inl e \<Rightarrow> Inl e
       | Inr A' \<Rightarrow> nv_inner p xpos yposs A')"

fun nv_outer :: "plane \<Rightarrow> nat list \<Rightarrow> cell list list \<Rightarrow> error + cell list list" where
  "nv_outer p [] A = Inr A"
| "nv_outer p (xpos # xposs) A =
     (case nv_inner p xpos [0..<nat (ylen p)] A of
        Inl e \<Rightarrow> Inl e
      | Inr A' \<Rightarrow> nv_outer p xposs A')"

text \<open>
  \<^verbatim>\<open>np.zeros\<close> refuses a negative dimension; the array has \<open>xlen\<close> rows of \<open>ylen\<close>
  zeros.  \<^verbatim>\<open>pd.DataFrame\<close> refuses values whose shape is not (number of row labels,
  number of column labels).
\<close>

definition refresh_NV :: "plane \<Rightarrow> (error \<times> plane) + plane" where
  "refresh_NV p =
     (if xlen p < 0 \<or> ylen p < 0 then Inl (ValueError, p)
      else
        (case nv_outer p [0..<nat (xlen p)]
                (replicate (nat (xlen p)) (replicate (nat (ylen p)) (CFloat 0))) of
           Inl e \<Rightarrow> Inl (e, p)
         | Inr planeArray \<Rightarrow>
            (if xlen p \<noteq> ylen p then Inl (ValueError, p)
             else Inr (p\<lparr>index := ylabels p, columns := xlabels p,
                         contents := planeArray\<rparr>))))"

text \<open>\<^verbatim>\<open>self.refresh()\<close> is dispatched on the class of the object.\<close>

definition refresh :: "plane \<Rightarrow> (error \<times> plane) + plane" where
  "refresh p = (case cls p of JuliaPlane \<Rightarrow> refresh_NP p | JuliaPlaneNV \<Rightarrow> refresh_NV p)"

text \<open>
  \<^verbatim>\<open>ComplexPlaneNP.zoom\<close>:
  \<^verbatim>\<open>
    self.xmin = newXmin
    self.xmax = newXmax
    self.ymin = newYmin
    self.ymax = newYmax
    self.xstep = (self.xmax - self.xmin)/(self.xlen - 1)
    self.ystep = (self.ymax - self.ymin)/(self.ylen - 1)
    self.refresh()
  \<close>
\<close>

definition zoom :: "plane \<Rightarrow> real \<Rightarrow> real \<Rightarrow> real \<Rightarrow> real \<Rightarrow> (error \<times> plane) + plane" where
  "zoom p newXmin newXmax newYmin newYmax =
     (let p1 = p\<lparr>xmin := newXmin, xmax := newXmax, ymin := newYmin, ymax := newYmax\<rparr> in
      case truediv (xmax p1 - xmin p1) (xlen p1 - 1) of
        Inl e \<Rightarrow> Inl (e, p1)
      | Inr sx \<Rightarrow>
         (let p2 = p1\<lparr>xstep := sx\<rparr> in
          case truediv (ymax p2 - ymin p2) (ylen p2 - 1) of
            Inl e \<Rightarrow> Inl (e, p2)
          | Inr sy \<Rightarrow> refresh (p2\<lparr>ystep := sy\<rparr>)))"

text \<open>
  \<^verbatim>\<open>set_f(self, c, max=100)\<close> of \<^verbatim>\<open>JuliaPlane\<close> (with \<^verbatim>\<open>julia\<close>) and of
  \<^verbatim>\<open>JuliaPlaneNV\<close> (with \<^verbatim>\<open>juliaNV\<close>).
\<close>

definition set_f :: "plane \<Rightarrow> complex \<Rightarrow> int \<Rightarrow> (error \<times> plane) + plane" where
  "set_f p c mx =
     refresh (p\<lparr>cconst := c,
                func := (case cls p of JuliaPlane \<Rightarrow> Closure_julia c mx
                                     | JuliaPlaneNV \<Rightarrow> Closure_juliaNV c mx)\<rparr>)"

text \<open>
  The constructors.  \<^verbatim>\<open>JuliaPlane.__init__\<close> and \<^verbatim>\<open>JuliaPlaneNV.__init__\<close> build the
  closure, set \<^verbatim>\<open>self.c\<close> and call \<^verbatim>\<open>ComplexPlaneNP.__init__\<close>, which stores the
  arguments, computes the steps and calls \<^verbatim>\<open>self.refresh()\<close>.  A constructor that
  raises yields no object.
\<close>

definition ComplexPlaneNP_init ::
  "plane_class \<Rightarrow> complex \<Rightarrow> real \<Rightarrow> real \<Rightarrow> int \<Rightarrow> real \<Rightarrow> real \<Rightarrow> int \<Rightarrow> transform \<Rightarrow> int
   \<Rightarrow> error + plane" where
  "ComplexPlaneNP_init k c newXmin newXmax newXlen newYmin newYmax newYlen f maxLoop =
     (case truediv (newXmax - newXmin) (newXlen - 1) of
        Inl e \<Rightarrow> Inl e
      | Inr sx \<Rightarrow>
         (case truediv (newYmax - newYmin) (newYlen - 1) of
            Inl e \<Rightarrow> Inl e
          | Inr sy \<Rightarrow>
             (case refresh \<lparr>cls = k, xmin = newXmin, xmax = newXmax, ymin = newYmin,
                            ymax = newYmax, xlen = newXlen, ylen = newYlen, xstep = sx,
                            ystep = sy, func = f, maxloop = maxLoop, cconst = c,
                            index = [], columns = [], contents = []\<rparr> of
                Inl (e, p') \<Rightarrow> Inl e
              | Inr p' \<Rightarrow> Inr p')))"

definition JuliaPlane_init ::
  "real \<Rightarrow> real \<Rightarrow> int \<Rightarrow> real \<Rightarrow> real \<Rightarrow> int \<Rightarrow> complex \<Rightarrow> int \<Rightarrow> error + plane" where
  "JuliaPlane_init newXmin newXmax newXlen newYmin newYmax newYlen c maxLoop =
     ComplexPlaneNP_init JuliaPlane c newXmin newXmax newXlen newYmin newYmax newYlen
       (Closure_julia c maxLoop) maxLoop"

definition JuliaPlaneNV_init ::
  "real \<Rightarrow> real \<Rightarrow> int \<Rightarrow> real \<Rightarrow> real \<Rightarrow> int \<Rightarrow> complex \<Rightarrow> int \<Rightarrow> error + plane" where
  "JuliaPlaneNV_init newXmin newXmax newXlen newYmin newYmax newYlen c maxLoop =
     ComplexPlaneNP_init JuliaPlaneNV c newXmin newXmax newXlen newYmin newYmax newYlen
       (Closure_juliaNV c maxLoop) maxLoop"


section \<open>Saving and loading the parameters\<close>

text \<open>
  The file written by \<^verbatim>\<open>toCSV\<close>: the parameter row
  \<^verbatim>\<open>[ '', xmin, xmax, xlen, ymin, ymax, ylen, c ]\<close> and the rows of contents.  The
  header row and the marker row are constant.  The text of a number is not modelled: a
  value written by the \<^verbatim>\<open>csv\<close> or \<^verbatim>\<open>json\<close> module is the value read back.
\<close>

record csv_file =
  csv_xmin :: real
  csv_xmax :: real
  csv_xlen :: int
  csv_ymin :: real
  csv_ymax :: real
  csv_ylen :: int
  csv_c :: complex
  csv_contents :: "cell list list"

text \<open>
  \<^verbatim>\<open>toCSV\<close>.  Each \<^verbatim>\<open>row_i\<close> of \<^verbatim>\<open>iterrows()\<close> is a pair (label, row), and
  \<^verbatim>\<open>row_i[1:self.xlen]\<close> holds the row when \<open>xlen\<close> is at least 2 and nothing
  otherwise.
\<close>

definition toCSV :: "plane \<Rightarrow> csv_file" where
  "toCSV p =
     \<lparr>csv_xmin = xmin p, csv_xmax = xmax p, csv_xlen = xlen p,
      csv_ymin = ymin p, csv_ymax = ymax p, csv_ylen = ylen p, csv_c = cconst p,
      csv_contents = (if 2 \<le> xlen p then contents p else [])\<rparr>"

text \<open>
  \<^verbatim>\<open>fromCSV\<close> reads the second row only:
  \<^verbatim>\<open>
    self.xmin  = float( row[ 1 ] )
    self.xmax  = float( row[ 2 ] )
    self.xlen  = int( row[ 3 ] )
    self.ymin  = float( row[ 4 ] )
    self.ymax  = float( row[ 5 ] )
    self.ylen  = int( row[ 6 ] )
    self.c     = complex( row[ 7 ] )
    self.xstep = (self.xmax - self.xmin)/(self.xlen - 1)
    self.ystep = (self.ymax - self.ymin)/(self.ylen - 1)
    self.set_f( self.c )
  \<close>
  The call \<^verbatim>\<open>self.set_f( self.c )\<close> takes the default \<^verbatim>\<open>max=100\<close>.
\<close>

definition load_parameters ::
  "plane \<Rightarrow> real \<Rightarrow> real \<Rightarrow> int \<Rightarrow> real \<Rightarrow> real \<Rightarrow> int \<Rightarrow> complex \<Rightarrow> (error \<times> plane) + plane" where
  "load_parameters p x0 x1 xn y0 y1 yn c =
     (let p1 = p\<lparr>xmin := x0, xmax := x1, xlen := xn, ymin := y0, ymax := y1, ylen := yn,
                 cconst := c\<rparr> in
      case truediv (xmax p1 - xmin p1) (xlen p1 - 1) of
        Inl e \<Rightarrow> Inl (e, p1)
      | Inr sx \<Rightarrow>
         (let p2 = p1\<lparr>xstep := sx\<rparr> in
          case truediv (ymax p2 - ymin p2) (ylen p2 - 1) of
            Inl e \<Rightarrow> Inl (e, p2)
          | Inr sy \<Rightarrow> (let p3 = p2\<lparr>ystep := sy\<rparr> in set_f p3 (cconst p3) 100)))"

definition fromCSV :: "plane \<Rightarrow> csv_file \<Rightarrow> (error \<times> plane) + plane" where
  "fromCSV p file =
     load_parameters p (csv_xmin file) (csv_xmax file) (csv_xlen file)
       (csv_ymin file) (csv_ymax file) (csv_ylen file) (csv_c file)"

text \<open>
  The dictionary dumped by \<^verbatim>\<open>toJSON\<close>: the entry \<^verbatim>\<open>"JuliaPlaneParameters"\<close> and,
  for each \<open>row\<close>, the entry \<^verbatim>\<open>"JuliaPlaneContents" + str(row)\<close> holding the row label
  and the row.
\<close>

record json_file =
  json_xmin :: real
  json_xmax :: real
  json_xlen :: int
  json_ymin :: real
  json_ymax :: real
  json_ylen :: int
  json_creal :: real
  json_cimaginary :: real
  json_contents :: "(nat \<times> real \<times> cell list) list"

text \<open>
  \<^verbatim>\<open>toJSON\<close>:
  \<^verbatim>\<open>
    data = { "JuliaPlaneParameters": { "xmin":self.xmin, ..., "creal":self.c.real, "cimaginary":self.c.imag }}
    mat = self.plane.as_matrix()
    for row in range( 0, self.xlen ):
        l = mat[ row ].tolist()
        data[ "JuliaPlaneContents" + str( row )] = { self.plane.index[ row ]:  l }
    json.dump(data, jsonfile, indent=4, sort_keys=True, separators=(',', ':'))
  \<close>
  The loop runs over \<open>xlen\<close> rows; \<^verbatim>\<open>mat[ row ]\<close> beyond the last row is an
  \<^verbatim>\<open>IndexError\<close>.  \<^verbatim>\<open>json.dump\<close> raises \<^verbatim>\<open>TypeError\<close> on a \<^verbatim>\<open>complex\<close> value.
\<close>

definition toJSON :: "plane \<Rightarrow> error + json_file" where
  "toJSON p =
     (if length (contents p) < nat (xlen p) then Inl IndexError
      else
        (let rows = map (\<lambda>row. (row, index p ! row, contents p ! row)) [0..<nat (xlen p)] in
         if list_ex (\<lambda>(row, label, l). list_ex is_CComplex l) rows then Inl TypeError
         else Inr \<lparr>json_xmin = xmin p, json_xmax = xmax p, json_xlen = xlen p,
                   json_ymin = ymin p, json_ymax = ymax p, json_ylen = ylen p,
                   json_creal = Re (cconst p), json_cimaginary = Im (cconst p),
                   json_contents = rows\<rparr>))"

text \<open>
  \<^verbatim>\<open>fromJSON\<close> reads the parameters, with
  \<^verbatim>\<open>self.c = data[...]["creal"] + data[...]["cimaginary"]*1j\<close>, and then proceeds as
  \<^verbatim>\<open>fromCSV\<close> does.
\<close>

definition fromJSON :: "plane \<Rightarrow> json_file \<Rightarrow> (error \<times> plane) + plane" where
  "fromJSON p file =
     load_parameters p (json_xmin file) (json_xmax file) (json_xlen file)
       (json_ymin file) (json_ymax file) (json_ylen file)
       (complex_of_real (json_creal file) + complex_of_real (json_cimaginary file) * \<i>)"


section \<open>Example planes\<close>

text \<open>
  The objects built by \<^verbatim>\<open>JuliaPlane(3., 4., 2, 0., 1., 2, 0j, 100)\<close>,
  \<^verbatim>\<open>JuliaPlaneNV(3., 4., 2, 0., 1., 2, 0j, 100)\<close> and
  \<^verbatim>\<open>JuliaPlaneNV(1.25, 2.5, 2, 0., 2., 2, 0j, 1)\<close>; the lemmas
  \<open>JuliaPlane_init_example\<close>, \<open>JuliaPlaneNV_init_example\<close> and
  \<open>JuliaPlaneNV_init_cap1\<close> below show that the constructors return them.
\<close>

definition example_plane :: plane where
  "example_plane =
     \<lparr>cls = JuliaPlane, xmin = 3, xmax = 4, ymin = 0, ymax = 1, xlen = 2, ylen = 2,
      xstep = 1, ystep = 1, func = Closure_julia 0 100, maxloop = 100, cconst = 0,
      index = [1, 0], columns = [3, 4],
      contents = [[CComplex (Complex 3 0), CComplex (Complex 4 0)],
                  [CComplex (Complex 3 1), CComplex (Complex 4 1)]]\<rparr>"

definition example_planeNV :: plane where
  "example_planeNV =
     \<lparr>cls = JuliaPlaneNV, xmin = 3, xmax = 4, ymin = 0, ymax = 1, xlen = 2, ylen = 2,
      xstep = 1, ystep = 1, func = Closure_juliaNV 0 100, maxloop = 100, cconst = 0,
      index = [1, 0], columns = [3, 4],
      contents = [[CFloat 1, CFloat 1], [CFloat 1, CFloat 1]]\<rparr>"

definition example_cap1 :: plane where
  "example_cap1 =
     \<lparr>cls = JuliaPlaneNV, xmin = 5/4, xmax = 5/2, ymin = 0, ymax = 2, xlen = 2, ylen = 2,
      xstep = 5/4, ystep = 2, func = Closure_juliaNV 0 1, maxloop = 1, cconst = 0,
      index = [2, 0], columns = [5/4, 5/2],
      contents = [[CFloat 1, CFloat 1], [CFloat 0, CFloat 1]]\<rparr>"

text \<open>An array of \<open>n\<close> rows of \<open>n\<close> cells (used in the proofs about the loops).\<close>

definition shape :: "nat \<Rightarrow> cell list list \<Rightarrow> bool" where
  "shape n A \<longleftrightarrow> length A = n \<and> (\<forall>row\<in>set A. length row = n)"


section \<open>Properties of the escape function\<close>

declare julia_loop.simps [simp del]

subsection \<open>Evaluation\<close>

lemma cmod_le_iff:
  assumes "0 \<le> r"
  shows "cmod z \<le> r \<longleftrightarrow> (Re z)\<^sup>2 + (Im z)\<^sup>2 \<le> r\<^sup>2"
proof -
  have "cmod z \<le> r \<longleftrightarrow> \<bar>cmod z\<bar> \<le> \<bar>r\<bar>" using assms by simp
  also have "\<dots> \<longleftrightarrow> (cmod z)\<^sup>2 \<le> r\<^sup>2" by (rule abs_le_square_iff)
  also have "\<dots> \<longleftrightarrow> (Re z)\<^sup>2 + (Im z)\<^sup>2 \<le> r\<^sup>2" by (simp only: cmod_power2)
  finally show ?thesis .
qed

lemma cmod_Complex_le_2: "cmod (Complex a b) \<le> 2 \<longleftrightarrow> a * a + b * b \<le> 4"
  using cmod_le_iff [of 2 "Complex a b"] by (simp add: power2_eq_square)

lemma julia_step_Complex:
  "julia_step (Complex cr ci) (Complex a b) = Complex (a * a - b * b + cr) (2 * a * b + ci)"
  by (simp add: julia_step_def complex_eq_iff power2_eq_square)

lemma zero_Complex: "(0::complex) = Complex 0 0"
  by (simp add: complex_eq_iff)

lemma int32_id: "- (2 ^ 31) \<le> i \<Longrightarrow> i < 2 ^ 31 \<Longrightarrow> int32 i = i"
  unfolding int32_def
  by (simp add: sint_sbintrunc' signed_take_bit_int_eq_self)

subsection \<open>The loop along the orbit\<close>

lemma orbit_0: "orbit c z 0 = z"
  by (simp add: orbit_def)

lemma orbit_Suc_shift: "orbit c (julia_step c z) i = orbit c z (Suc i)"
  by (simp add: orbit_def funpow_swap1)

text \<open>
  When the orbit leaves the disc of radius 2 at step \<open>m\<close> and the counter does not reach
  the cap, the loop is left through its condition after \<open>m\<close> iterations.
\<close>

lemma loop_escape:
  "\<forall>i<m. cmod (orbit c z i) \<le> 2 \<Longrightarrow> \<not> cmod (orbit c z m) \<le> 2 \<Longrightarrow> n + int m \<le> mx
   \<Longrightarrow> julia_loop c mx z n k = (n + int m, k + m)"
proof (induction m arbitrary: z n k)
  case 0
  then show ?case by (simp add: orbit_0 julia_loop.simps)
next
  case (Suc m)
  have z: "cmod z \<le> 2" using Suc.prems(1) [rule_format, of 0] by (simp add: orbit_0)
  have "julia_loop c mx (julia_step c z) (n + 1) (Suc k) = (n + 1 + int m, Suc k + m)"
  proof (rule Suc.IH)
    show "\<forall>i<m. cmod (orbit c (julia_step c z) i) \<le> 2"
      using Suc.prems(1) by (simp add: orbit_Suc_shift)
    show "\<not> cmod (orbit c (julia_step c z) m) \<le> 2"
      using Suc.prems(2) by (simp add: orbit_Suc_shift)
    show "n + 1 + int m \<le> mx" using Suc.prems(3) by simp
  qed
  moreover have "\<not> n \<ge> mx" using Suc.prems(3) by simp
  ultimately show ?case using z by (simp add: julia_loop.simps [of c mx z n k])
qed

text \<open>When the orbit stays in the disc until the counter reaches the cap, the loop is
  left by \<^verbatim>\<open>break\<close> with \<^verbatim>\<open>n = 1\<close>.\<close>

lemma loop_cap:
  "\<forall>i\<le>m. cmod (orbit c z i) \<le> 2 \<Longrightarrow> mx \<le> n + int m
   \<Longrightarrow> fst (julia_loop c mx z n k) = 1"
proof (induction m arbitrary: z n k)
  case 0
  then show ?case by (simp add: orbit_0 julia_loop.simps)
next
  case (Suc m)
  have z: "cmod z \<le> 2" using Suc.prems(1) [rule_format, of 0] by (simp add: orbit_0)
  show ?case
  proof (cases "n \<ge> mx")
    case True
    then show ?thesis using z by (simp add: julia_loop.simps [of c mx z n k])
  next
    case False
    have "fst (julia_loop c mx (julia_step c z) (n + 1) (Suc k)) = 1"
    proof (rule Suc.IH)
      show "\<forall>i\<le>m. cmod (orbit c (julia_step c z) i) \<le> 2"
        using Suc.prems(1) by (simp add: orbit_Suc_shift)
      show "mx \<le> n + 1 + int m" using Suc.prems(2) by simp
    qed
    then show ?thesis using z False by (simp add: julia_loop.simps [of c mx z n k])
  qed
qed

lemma f_body_escape:
  assumes "1 \<le> n" "int n \<le> mx" "\<forall>k<n. cmod (orbit c z0 k) \<le> 2" "\<not> cmod (orbit c z0 n) \<le> 2"
  shows "f_body c mx z0 = (int n - 1, n)"
proof -
  have z: "cmod z0 \<le> 2" using assms(1,3) by (auto simp: orbit_0 dest: spec [of _ 0])
  have "julia_loop c mx z0 0 0 = (0 + int n, 0 + n)"
    by (rule loop_escape) (use assms in simp_all)
  then show ?thesis using z by (simp add: f_body_def)
qed

text \<open>The value of \<^verbatim>\<open>n\<close> at the end of the loop, and the range of the result of \<^verbatim>\<open>f\<close>.\<close>

lemma loop_bounds:
  "fst (julia_loop c mx z n k) = 1
   \<or> (n \<le> fst (julia_loop c mx z n k) \<and> fst (julia_loop c mx z n k) \<le> max n mx)"
proof (induction c mx z n k rule: julia_loop.induct)
  case (1 c mx z n k)
  show ?case
  proof (cases "cmod z \<le> 2 \<and> \<not> mx \<le> n")
    case True
    then have "julia_loop c mx z n k = julia_loop c mx (julia_step c z) (n + 1) (Suc k)"
      by (simp add: julia_loop.simps [of c mx z n k])
    moreover have "fst (julia_loop c mx (julia_step c z) (n + 1) (Suc k)) = 1
      \<or> (n + 1 \<le> fst (julia_loop c mx (julia_step c z) (n + 1) (Suc k))
          \<and> fst (julia_loop c mx (julia_step c z) (n + 1) (Suc k)) \<le> max (n + 1) mx)"
      using True by (intro "1.IH") simp_all
    ultimately show ?thesis using True by auto
  next
    case False
    then show ?thesis by (auto simp: julia_loop.simps [of c mx z n k])
  qed
qed

lemma f_body_bounds: "0 \<le> fst (f_body c mx z) \<and> fst (f_body c mx z) \<le> max 1 (mx - 1)"
proof (cases "cmod z \<le> 2")
  case False
  then show ?thesis by (simp add: f_body_def)
next
  case z: True
  show ?thesis
  proof (cases "mx \<le> 0")
    case True
    then have "julia_loop c mx z 0 0 = (1, 1)"
      using z by (simp add: julia_loop.simps [of c mx z 0 0])
    then show ?thesis using z by (simp add: f_body_def)
  next
    case False
    then have e: "julia_loop c mx z 0 0 = julia_loop c mx (julia_step c z) 1 1"
      using z by (simp add: julia_loop.simps [of c mx z 0 0])
    obtain n' k' where r: "julia_loop c mx (julia_step c z) 1 1 = (n', k')"
      by (cases "julia_loop c mx (julia_step c z) 1 1")
    have "n' = 1 \<or> (1 \<le> n' \<and> n' \<le> max 1 mx)"
      using loop_bounds [of c mx "julia_step c z" 1 1] r by simp
    then show ?thesis using z e r False by (auto simp: f_body_def)
  qed
qed

text \<open>
  The vectorized and the plain closure have the same body; they return the same value
  as long as the result fits the declared \<^verbatim>\<open>int32\<close>, which a cap of at most \<open>2^31\<close>
  guarantees.
\<close>

lemma julia_agrees_with_juliaNV:
  assumes "mx \<le> 2 ^ 31"
  shows "julia c mx z = juliaNV c mx z"
proof -
  have "0 \<le> fst (f_body c mx z)" "fst (f_body c mx z) \<le> max 1 (mx - 1)"
    using f_body_bounds [of c mx z] by simp_all
  then have "int32 (fst (f_body c mx z)) = fst (f_body c mx z)"
    using assms by (intro int32_id) auto
  then show ?thesis by (simp add: julia_def juliaNV_def)
qed

text \<open>An orbit that starts in the disc of radius 1/2 stays there when \<open>|c| \<le> 1/4\<close>.\<close>

lemma orbit_stays_small:
  assumes "cmod c \<le> 1/4" and "cmod z \<le> 1/2"
  shows "cmod (orbit c z k) \<le> 1/2"
proof (induction k)
  case 0
  then show ?case using assms(2) by (simp add: orbit_0)
next
  case (Suc k)
  have "cmod ((orbit c z k)\<^sup>2) = (cmod (orbit c z k))\<^sup>2" by (rule norm_power)
  also have "\<dots> \<le> (1/2)\<^sup>2" using Suc.IH by (intro power_mono) simp_all
  finally have sq: "cmod ((orbit c z k)\<^sup>2) \<le> 1/4" by (simp add: power2_eq_square)
  have "cmod (orbit c z (Suc k)) = cmod ((orbit c z k)\<^sup>2 + c)"
    by (simp add: orbit_def julia_step_def)
  also have "\<dots> \<le> cmod ((orbit c z k)\<^sup>2) + cmod c" by (rule norm_triangle_ineq)
  also have "\<dots> \<le> 1/2" using sq assms(1) by simp
  finally show ?case .
qed

subsection \<open>The return values\<close>

text \<open>
  C2 (as amended).  The claim says that an evaluation with \<open>|z0| \<le> 2\<close> whose loop is left
  because \<open>|z|\<close> exceeded 2 after \<open>n \<ge> 1\<close> iterations returns \<open>n\<close>.  The code
  subtracts one after the loop: when the orbit of \<open>z0\<close> stays within magnitude 2 for the
  first \<open>n - 1\<close> applications of \<^verbatim>\<open>z = z**2 + c\<close> and exceeds 2 after the \<open>n\<close>-th, with
  \<open>1 \<le> n \<le> max\<close>, the loop performs \<open>n\<close> iterations and \<^verbatim>\<open>f\<close> returns \<open>n - 1\<close>
  (for \<^verbatim>\<open>julia\<close>, as long as \<open>n - 1\<close> fits the declared \<^verbatim>\<open>int32\<close>).
\<close>

theorem julia_escape_after_n:
  assumes "1 \<le> n" and "int n \<le> mx"
    and "\<forall>k<n. cmod (orbit c z0 k) \<le> 2" and "cmod (orbit c z0 n) > 2"
  shows "juliaNV c mx z0 = int n - 1 \<and> f_iterations c mx z0 = n
         \<and> (int n \<le> 2 ^ 31 \<longrightarrow> julia c mx z0 = int n - 1)"
proof -
  have "f_body c mx z0 = (int n - 1, n)"
    by (rule f_body_escape) (use assms in simp_all)
  then show ?thesis
    using assms(1) by (simp add: juliaNV_def julia_def f_iterations_def int32_id)
qed

theorem julia_escape_after_n_witness:
  "juliaNV (Complex (2/10) (2/10)) 100 (Complex (7/10) (7/10)) = 3
   \<and> f_iterations (Complex (2/10) (2/10)) 100 (Complex (7/10) (7/10)) = 4
   \<and> julia (Complex (2/10) (2/10)) 100 (Complex (7/10) (7/10)) = 3"
proof -
  have o: "\<forall>k<4. cmod (orbit (Complex (2/10) (2/10)) (Complex (7/10) (7/10)) k) \<le> 2"
    by (simp add: All_less_Suc2 numeral_eq_Suc orbit_def cmod_Complex_le_2 julia_step_Complex)
  have e: "cmod (orbit (Complex (2/10) (2/10)) (Complex (7/10) (7/10)) 4) > 2"
    by (simp add: numeral_eq_Suc orbit_def cmod_Complex_le_2 julia_step_Complex
        flip: not_le)
  show ?thesis
    using julia_escape_after_n [of 4 100 "Complex (2/10) (2/10)" "Complex (7/10) (7/10)"] o e
    by simp
qed

text \<open>
  C2 (counterexample).  With \<open>c = 3\<close> and \<open>z0 = 0\<close> the magnitude exceeds 2 after exactly
  one application of \<^verbatim>\<open>z = z**2 + c\<close>, the loop performs one iteration, and both closures
  return 0, not 1.
\<close>

theorem julia_escape_returns_n_counterexample:
  "cmod (orbit 3 0 0) \<le> 2 \<and> cmod (orbit 3 0 1) > 2 \<and> f_iterations 3 100 0 = 1
   \<and> julia 3 100 0 = 0 \<and> juliaNV 3 100 0 = 0 \<and> julia 3 100 0 \<noteq> 1 \<and> juliaNV 3 100 0 \<noteq> 1"
  by (simp add: orbit_def julia_step_def julia_def juliaNV_def f_iterations_def f_body_def
      julia_loop.simps int32_id)

text \<open>
  C3.  For every \<open>c\<close>, every cap and every \<open>z0\<close> with \<open>|z0| > 2\<close>, the escape function
  returns 1, and it does so without executing \<^verbatim>\<open>z = z**2 + c\<close> at all.
\<close>

theorem julia_too_large_returns_1:
  assumes "cmod z0 > 2"
  shows "julia c mx z0 = 1 \<and> juliaNV c mx z0 = 1 \<and> f_iterations c mx z0 = 0"
  using assms by (simp add: julia_def juliaNV_def f_iterations_def f_body_def int32_id)

theorem julia_too_large_returns_1_witness:
  "cmod (Complex 7 7) > 2 \<and> julia (Complex 2 2) 100 (Complex 7 7) = 1
   \<and> juliaNV (Complex 2 2) 100 (Complex 7 7) = 1
   \<and> f_iterations (Complex 2 2) 100 (Complex 7 7) = 0"
proof -
  have h: "cmod (Complex 7 7) > 2"
    by (simp add: cmod_Complex_le_2 flip: not_le)
  show ?thesis
    using h julia_too_large_returns_1 [OF h, of "Complex 2 2" 100] by simp
qed

text \<open>
  C4.  For every \<open>c\<close>, every positive cap \<open>maxIter\<close> and every \<open>z0\<close> whose orbit
  (\<open>z0\<close> itself included) never exceeds magnitude 2 within \<open>maxIter\<close> steps, the escape
  function returns 0.
\<close>

theorem julia_never_escapes_returns_0:
  assumes "0 < mx" and "\<forall>k\<le>nat mx. cmod (orbit c z0 k) \<le> 2"
  shows "julia c mx z0 = 0 \<and> juliaNV c mx z0 = 0"
proof -
  have z: "cmod z0 \<le> 2" using assms(2) by (auto simp: orbit_0 dest: spec [of _ 0])
  have "fst (julia_loop c mx z0 0 0) = 1"
    by (rule loop_cap [where m = "nat mx"]) (use assms in simp_all)
  then have "fst (f_body c mx z0) = 0"
    using z by (cases "julia_loop c mx z0 0 0") (simp add: f_body_def)
  then show ?thesis by (simp add: julia_def juliaNV_def int32_id)
qed

text \<open>The witness is the concrete case \<open>c = z0 = 0.1+0.1j\<close>, \<open>maxIter = 10\<close>.\<close>

theorem julia_never_escapes_returns_0_witness:
  "julia (Complex (1/10) (1/10)) 10 (Complex (1/10) (1/10)) = 0
   \<and> juliaNV (Complex (1/10) (1/10)) 10 (Complex (1/10) (1/10)) = 0"
proof -
  have "cmod (orbit (Complex (1/10) (1/10)) (Complex (1/10) (1/10)) k) \<le> 1/2" for k
  proof (rule orbit_stays_small)
    show "cmod (Complex (1/10) (1/10)) \<le> 1/4"
      using cmod_le_iff [of "1/4" "Complex (1/10) (1/10)"] by (simp add: power2_eq_square)
    show "cmod (Complex (1/10) (1/10)) \<le> 1/2"
      using cmod_le_iff [of "1/2" "Complex (1/10) (1/10)"] by (simp add: power2_eq_square)
  qed
  then have "cmod (orbit (Complex (1/10) (1/10)) (Complex (1/10) (1/10)) k) \<le> 2" for k
    by (rule order_trans) simp
  then have "\<forall>k\<le>nat 10. cmod (orbit (Complex (1/10) (1/10)) (Complex (1/10) (1/10)) k) \<le> 2"
    by blast
  moreover have "(0::int) < 10" by simp
  ultimately show ?thesis
    using julia_never_escapes_returns_0 [of 10 "Complex (1/10) (1/10)" "Complex (1/10) (1/10)"]
    by blast
qed

text \<open>
  C5.  The escape function at \<open>z0 = 0.7+0.7j\<close> with \<open>c = 0.2+0.2j\<close> and cap 100 returns 3
  (the values 0.7 and 0.2 are taken as the rationals 7/10 and 2/10).
\<close>

theorem julia_concrete_case_returns_3:
  "julia (Complex (2/10) (2/10)) 100 (Complex (7/10) (7/10)) = 3"
  by (simp add: julia_def f_body_def julia_loop.simps cmod_Complex_le_2 julia_step_Complex
      int32_id)

text \<open>
  C10.  For every \<open>c\<close>, every cap \<open>max \<ge> 1\<close> and every \<open>z0\<close> with \<open>|z0| \<le> 2\<close> and
  \<open>|z0^2 + c| > 2\<close>, the closures of \<^verbatim>\<open>julia\<close> and \<^verbatim>\<open>juliaNV\<close> perform one iteration and
  return 0, the value that is also returned when the cap is reached.
\<close>

theorem julia_one_step_escape_returns_0:
  assumes "1 \<le> mx" and "cmod z0 \<le> 2" and "cmod (z0 ^ 2 + c) > 2"
  shows "julia c mx z0 = 0 \<and> juliaNV c mx z0 = 0 \<and> f_iterations c mx z0 = 1"
proof -
  have "julia_loop c mx z0 0 0 = julia_loop c mx (julia_step c z0) 1 1"
    using assms(1,2) by (simp add: julia_loop.simps [of c mx z0 0 0])
  also have "\<dots> = (1, 1)"
  proof -
    have "\<not> cmod (julia_step c z0) \<le> 2"
      using assms(3) by (simp add: julia_step_def not_le)
    then show ?thesis by (simp add: julia_loop.simps [of c mx "julia_step c z0"])
  qed
  finally show ?thesis
    using assms(2) by (simp add: julia_def juliaNV_def f_iterations_def f_body_def int32_id)
qed

theorem julia_one_step_escape_returns_0_witness:
  "(1::int) \<le> 100 \<and> cmod 1 \<le> 2 \<and> cmod (1 ^ 2 + 3) > 2
   \<and> julia 3 100 1 = 0 \<and> juliaNV 3 100 1 = 0 \<and> f_iterations 3 100 1 = 1"
proof -
  have a: "(1::int) \<le> 100" by simp
  have b: "cmod 1 \<le> 2" by simp
  have c: "cmod (1 ^ 2 + 3) > 2" by simp
  show ?thesis
    using a b c julia_one_step_escape_returns_0 [OF a b c] by simp
qed



section \<open>Properties of the planes\<close>

subsection \<open>Evaluation of the example planes\<close>

lemmas eval_simps =
  truediv_def refresh_def refresh_NP_def refresh_NV_def linspace_def ylabels_def xlabels_def
  upt_rec setitem_def numeral_2_eq_2 juliaNV_def julia_def f_body_def cmod_Complex_le_2
  julia_step_Complex julia_loop.simps int32_id zero_Complex

lemma JuliaPlane_init_example: "JuliaPlane_init 3 4 2 0 1 2 0 100 = Inr example_plane"
  by (simp add: JuliaPlane_init_def ComplexPlaneNP_init_def example_plane_def eval_simps)

lemma JuliaPlaneNV_init_example: "JuliaPlaneNV_init 3 4 2 0 1 2 0 100 = Inr example_planeNV"
  by (simp add: JuliaPlaneNV_init_def ComplexPlaneNP_init_def example_planeNV_def eval_simps)

lemma JuliaPlaneNV_init_cap1: "JuliaPlaneNV_init (5/4) (5/2) 2 0 2 2 0 1 = Inr example_cap1"
  by (simp add: JuliaPlaneNV_init_def ComplexPlaneNP_init_def example_cap1_def eval_simps)

lemma refresh_example: "refresh example_plane = Inr example_plane"
  by (simp add: example_plane_def eval_simps)

lemma zoom_example:
  "zoom example_plane 1 0 0 1 =
     Inr (example_plane\<lparr>xmin := 1, xmax := 0, xstep := - 1, index := [1, 0], columns := [1, 0],
            contents := [[CComplex (Complex 1 0), CComplex (Complex 0 0)],
                         [CComplex (Complex 1 1), CComplex (Complex 0 1)]]\<rparr>)"
  by (simp add: zoom_def example_plane_def eval_simps)

lemma load_cap1:
  "load_parameters example_cap1 (5/4) (5/2) 2 0 2 2 0 =
     Inr (example_cap1\<lparr>func := Closure_juliaNV 0 100,
            contents := [[CFloat 1, CFloat 1], [CFloat 1, CFloat 1]]\<rparr>)"
  by (simp add: load_parameters_def set_f_def example_cap1_def eval_simps)

lemma toJSON_cap1:
  "toJSON example_cap1 =
     Inr \<lparr>json_xmin = 5/4, json_xmax = 5/2, json_xlen = 2, json_ymin = 0, json_ymax = 2,
          json_ylen = 2, json_creal = 0, json_cimaginary = 0,
          json_contents = [(0, 2, [CFloat 1, CFloat 1]), (1, 0, [CFloat 0, CFloat 1])]\<rparr>"
  by (simp add: toJSON_def example_cap1_def upt_rec)

lemma fromCSV_toCSV_cap1:
  "fromCSV example_cap1 (toCSV example_cap1) =
     Inr (example_cap1\<lparr>func := Closure_juliaNV 0 100,
            contents := [[CFloat 1, CFloat 1], [CFloat 1, CFloat 1]]\<rparr>)"
proof -
  have "fromCSV example_cap1 (toCSV example_cap1)
        = load_parameters example_cap1 (5/4) (5/2) 2 0 2 2 0"
    by (simp add: fromCSV_def toCSV_def example_cap1_def)
  then show ?thesis by (simp only: load_cap1)
qed

lemma fromJSON_toJSON_cap1:
  "fromJSON example_cap1 (projr (toJSON example_cap1)) =
     Inr (example_cap1\<lparr>func := Closure_juliaNV 0 100,
            contents := [[CFloat 1, CFloat 1], [CFloat 1, CFloat 1]]\<rparr>)"
proof -
  have "fromJSON example_cap1 (projr (toJSON example_cap1))
        = load_parameters example_cap1 (5/4) (5/2) 2 0 2 2 0"
    unfolding toJSON_cap1 sum.sel by (simp add: fromJSON_def)
  then show ?thesis by (simp only: load_cap1)
qed

subsection \<open>The stored cells in general\<close>

lemma linspace_ok: "0 \<le> num \<Longrightarrow> \<exists>xs. linspace start stop num = Inr xs"
  by (simp add: linspace_def)

lemma linspace_nth:
  assumes "2 \<le> num" "j < nat num"
  shows "\<exists>xs. linspace start stop num = Inr xs \<and> length xs = nat num
          \<and> xs ! j = start + real j * ((stop - start) / real_of_int (num - 1))"
  using assms by (simp add: linspace_def)

text \<open>
  \<^verbatim>\<open>ComplexPlaneNP.refresh\<close> stores the lattice coordinate itself, and row \<open>i\<close> holds the
  \<open>i\<close>-th sample counted upwards from \<open>ymin\<close>, while its label counts downwards from
  \<open>ymax\<close>.
\<close>

lemma refresh_NP_cells:
  assumes "2 \<le> xlen p" "2 \<le> ylen p" "i < nat (ylen p)" "j < nat (xlen p)"
  shows "\<exists>p'. refresh_NP p = Inr p'
          \<and> contents p' ! i ! j =
              CComplex (Complex (xmin p + real j * ((xmax p - xmin p) / real_of_int (xlen p - 1)))
                                (ymin p + real i * ((ymax p - ymin p) / real_of_int (ylen p - 1))))
          \<and> index p' ! i = ymax p - real i * ystep p"
proof -
  obtain rx where rx: "linspace (xmin p) (xmax p) (xlen p) = Inr rx" "length rx = nat (xlen p)"
    "rx ! j = xmin p + real j * ((xmax p - xmin p) / real_of_int (xlen p - 1))"
    using linspace_nth [OF assms(1,4)] by blast
  obtain ry where ry: "linspace (ymin p) (ymax p) (ylen p) = Inr ry" "length ry = nat (ylen p)"
    "ry ! i = ymin p + real i * ((ymax p - ymin p) / real_of_int (ylen p - 1))"
    using linspace_nth [OF assms(2,3)] by blast
  have "refresh_NP p = Inr (p\<lparr>index := ylabels p, columns := xlabels p,
          contents := map (map CComplex) (map (\<lambda>y. map (\<lambda>x. Complex x y) rx) ry)\<rparr>)"
    by (simp add: refresh_NP_def rx(1) ry(1))
  moreover have "map (map CComplex) (map (\<lambda>y. map (\<lambda>x. Complex x y) rx) ry) ! i ! j
                 = CComplex (Complex (rx ! j) (ry ! i))"
    using assms(3,4) rx(2) ry(2) by simp
  moreover have "ylabels p ! i = ymax p - real i * ystep p"
    using assms(3) by (simp add: ylabels_def)
  ultimately show ?thesis by (simp add: rx(3) ry(3))
qed

lemma setitem_nth:
  assumes "setitem A r0 c0 v = Inr A'" "r < length A"
  shows "A' ! r ! col = (if r = r0 \<and> col = c0 then v else A ! r ! col)"
proof -
  have ok: "r0 < length A" "c0 < length (A ! r0)" and A': "A' = A[r0 := (A ! r0)[c0 := v]]"
    using assms(1) by (auto simp: setitem_def split: if_splits)
  show ?thesis
  proof (cases "r = r0")
    case True
    then show ?thesis using ok A' by (simp add: nth_list_update)
  next
    case False
    then show ?thesis using assms(2) A' by simp
  qed
qed

lemma shape_setitem:
  assumes "shape n A" "r < n" "col < n"
  shows "\<exists>A'. setitem A r col v = Inr A' \<and> shape n A'"
proof -
  have l: "length (A ! r) = n" using assms(1,2) by (simp add: shape_def)
  have "shape n (A[r := (A ! r)[col := v]])"
    using assms(1) l by (auto simp: shape_def dest!: set_update_subset_insert [THEN subsetD])
  then show ?thesis using assms l by (simp add: setitem_def shape_def)
qed

text \<open>The inner loop writes column \<open>xpos\<close>: row \<open>r\<close> receives the value for
  \<open>ypos = n - 1 - r\<close>.\<close>

lemma nv_inner_cells:
  assumes "nat (ylen p) = n" "xpos < n" "r < n" "\<forall>ypos\<in>set yposs. ypos < n"
  shows "shape n A \<Longrightarrow>
         \<exists>A'. nv_inner p xpos yposs A = Inr A' \<and> shape n A'
           \<and> A' ! r ! col =
              (if col = xpos \<and> n - 1 - r \<in> set yposs
               then CFloat (real_of_int (apply_f (func p)
                      (Complex (real xpos * xstep p + xmin p)
                               (real (n - 1 - r) * ystep p + ymin p))))
               else A ! r ! col)"
  using assms(4)
proof (induction yposs arbitrary: A)
  case Nil
  then show ?case by simp
next
  case (Cons ypos yposs)
  let ?v = "CFloat (real_of_int (apply_f (func p)
              (Complex (real xpos * xstep p + xmin p) (real ypos * ystep p + ymin p))))"
  have y: "ypos < n" using Cons.prems(2) by simp
  then have "n - ypos - 1 < n" by simp
  from shape_setitem [OF Cons.prems(1) this assms(2)]
  obtain A1 where s: "setitem A (n - ypos - 1) xpos ?v = Inr A1" and sh: "shape n A1"
    by blast
  have A1: "A1 ! r ! col = (if r = n - ypos - 1 \<and> col = xpos then ?v else A ! r ! col)"
    using setitem_nth [OF s] assms(3) Cons.prems(1) by (simp add: shape_def)
  have rest: "\<forall>ypos\<in>set yposs. ypos < n" using Cons.prems(2) by simp
  from Cons.IH [OF sh rest]
  obtain A' where A': "nv_inner p xpos yposs A1 = Inr A'" "shape n A'"
    "A' ! r ! col =
       (if col = xpos \<and> n - 1 - r \<in> set yposs
        then CFloat (real_of_int (apply_f (func p)
               (Complex (real xpos * xstep p + xmin p) (real (n - 1 - r) * ystep p + ymin p))))
        else A1 ! r ! col)"
    by blast
  have eq: "r = n - ypos - 1 \<longleftrightarrow> ypos = n - 1 - r"
    using y assms(3) by auto
  have "nv_inner p xpos (ypos # yposs) A = Inr A'"
    using s A'(1) assms(1) by simp
  moreover have "A' ! r ! col =
       (if col = xpos \<and> n - 1 - r \<in> set (ypos # yposs)
        then CFloat (real_of_int (apply_f (func p)
               (Complex (real xpos * xstep p + xmin p) (real (n - 1 - r) * ystep p + ymin p))))
        else A ! r ! col)"
    using A'(3) A1 eq by auto
  ultimately show ?case using A'(2) by blast
qed

lemma nv_outer_cells:
  assumes "nat (ylen p) = n" "r < n" "\<forall>xpos\<in>set xposs. xpos < n"
  shows "shape n A \<Longrightarrow>
         \<exists>A'. nv_outer p xposs A = Inr A' \<and> shape n A'
           \<and> A' ! r ! col =
              (if col \<in> set xposs
               then CFloat (real_of_int (apply_f (func p)
                      (Complex (real col * xstep p + xmin p)
                               (real (n - 1 - r) * ystep p + ymin p))))
               else A ! r ! col)"
  using assms(3)
proof (induction xposs arbitrary: A)
  case Nil
  then show ?case by simp
next
  case (Cons xpos xposs)
  have x: "xpos < n" using Cons.prems(2) by simp
  have all: "\<forall>ypos\<in>set [0..<nat (ylen p)]. ypos < n" using assms(1) by simp
  from nv_inner_cells [OF assms(1) x assms(2) all Cons.prems(1), of col]
  obtain A1 where A1: "nv_inner p xpos [0..<nat (ylen p)] A = Inr A1" "shape n A1"
    "A1 ! r ! col =
       (if col = xpos
        then CFloat (real_of_int (apply_f (func p)
               (Complex (real xpos * xstep p + xmin p) (real (n - 1 - r) * ystep p + ymin p))))
        else A ! r ! col)"
    using assms(1,2) by auto
  have rest: "\<forall>xpos\<in>set xposs. xpos < n" using Cons.prems(2) by simp
  from Cons.IH [OF A1(2) rest]
  obtain A' where A': "nv_outer p xposs A1 = Inr A'" "shape n A'"
    "A' ! r ! col =
       (if col \<in> set xposs
        then CFloat (real_of_int (apply_f (func p)
               (Complex (real col * xstep p + xmin p) (real (n - 1 - r) * ystep p + ymin p))))
        else A1 ! r ! col)"
    by blast
  have "nv_outer p (xpos # xposs) A = Inr A'"
    using A1(1) A'(1) by simp
  moreover have "A' ! r ! col =
       (if col \<in> set (xpos # xposs)
        then CFloat (real_of_int (apply_f (func p)
               (Complex (real col * xstep p + xmin p) (real (n - 1 - r) * ystep p + ymin p))))
        else A ! r ! col)"
    using A'(3) A1(3) by auto
  ultimately show ?case using A'(2) by blast
qed

text \<open>
  \<^verbatim>\<open>JuliaPlaneNV.refresh\<close> on a square plane: the cell at row \<open>r\<close>, column \<open>col\<close> is the
  escape function at \<open>x + y*i\<close> with \<open>x = xmin + col*xstep\<close> and \<open>y = ymax - r*ystep\<close>,
  the coordinate that the labels name.
\<close>

lemma refresh_NV_cells:
  assumes "2 \<le> ylen p" "xlen p = ylen p" "r < nat (ylen p)" "col < nat (ylen p)"
    and "ystep p = (ymax p - ymin p) / real_of_int (ylen p - 1)"
  shows "\<exists>p'. refresh_NV p = Inr p'
          \<and> contents p' ! r ! col =
              CFloat (real_of_int (apply_f (func p)
                (Complex (xmin p + real col * xstep p) (ymax p - real r * ystep p))))
          \<and> index p' ! r = ymax p - real r * ystep p
          \<and> columns p' ! col = xmin p + real col * xstep p"
proof -
  define n where "n = nat (ylen p)"
  have n: "nat (ylen p) = n" "nat (xlen p) = n" "r < n" "col < n"
    using assms by (simp_all add: n_def)
  have sh: "shape n (replicate (nat (xlen p)) (replicate (nat (ylen p)) (CFloat 0)))"
    using n by (simp add: shape_def)
  have all: "\<forall>xpos\<in>set [0..<nat (xlen p)]. xpos < n" using n by simp
  from nv_outer_cells [OF n(1) n(3) all sh, of col]
  obtain A where A: "nv_outer p [0..<nat (xlen p)]
                       (replicate (nat (xlen p)) (replicate (nat (ylen p)) (CFloat 0))) = Inr A"
    "A ! r ! col = CFloat (real_of_int (apply_f (func p)
        (Complex (real col * xstep p + xmin p) (real (n - 1 - r) * ystep p + ymin p))))"
    using n by auto
  have k: "real (n - 1 - r) = real_of_int (ylen p - 1) - real r"
    using n(3) assms(1) by (simp add: n_def of_nat_diff)
  have d: "real_of_int (ylen p - 1) * ystep p = ymax p - ymin p"
    using assms(1,5) by simp
  have "real (n - 1 - r) * ystep p + ymin p
        = real_of_int (ylen p - 1) * ystep p - real r * ystep p + ymin p"
    unfolding k by (simp add: left_diff_distrib)
  also have "\<dots> = ymax p - real r * ystep p"
    unfolding d by simp
  finally have "real (n - 1 - r) * ystep p + ymin p = ymax p - real r * ystep p" .
  then have cell: "A ! r ! col = CFloat (real_of_int (apply_f (func p)
        (Complex (xmin p + real col * xstep p) (ymax p - real r * ystep p))))"
    using A(2) by (simp add: add.commute)
  have "refresh_NV p = Inr (p\<lparr>index := ylabels p, columns := xlabels p, contents := A\<rparr>)"
    using A(1) assms(1,2) by (simp add: refresh_NV_def)
  moreover have "ylabels p ! r = ymax p - real r * ystep p"
    using assms(3) by (simp add: ylabels_def)
  moreover have "xlabels p ! col = xmin p + real col * xstep p"
    using assms(2,4) by (simp add: xlabels_def add.commute)
  ultimately show ?thesis using cell by simp
qed

subsection \<open>Success of \<^verbatim>\<open>refresh\<close>\<close>

lemma refresh_NP_ok:
  assumes "0 \<le> xlen p" "0 \<le> ylen p"
  shows "\<exists>A. refresh_NP p = Inr (p\<lparr>index := ylabels p, columns := xlabels p, contents := A\<rparr>)"
proof -
  obtain rx where rx: "linspace (xmin p) (xmax p) (xlen p) = Inr rx"
    using linspace_ok [OF assms(1)] by blast
  obtain ry where ry: "linspace (ymin p) (ymax p) (ylen p) = Inr ry"
    using linspace_ok [OF assms(2)] by blast
  have "refresh_NP p = Inr (p\<lparr>index := ylabels p, columns := xlabels p,
          contents := map (map CComplex) (map (\<lambda>y. map (\<lambda>x. Complex x y) rx) ry)\<rparr>)"
    by (simp add: refresh_NP_def rx ry)
  then show ?thesis by blast
qed

lemma refresh_NV_ok:
  assumes "1 \<le> xlen p" "xlen p = ylen p"
  shows "\<exists>A. refresh_NV p = Inr (p\<lparr>index := ylabels p, columns := xlabels p, contents := A\<rparr>)"
proof -
  have sh: "shape (nat (ylen p)) (replicate (nat (xlen p)) (replicate (nat (ylen p)) (CFloat 0)))"
    using assms by (simp add: shape_def)
  have all: "\<forall>xpos\<in>set [0..<nat (xlen p)]. xpos < nat (ylen p)"
    using assms by simp
  have r: "0 < nat (ylen p)" using assms by simp
  from nv_outer_cells [OF refl r all sh]
  obtain A where
    "nv_outer p [0..<nat (xlen p)]
       (replicate (nat (xlen p)) (replicate (nat (ylen p)) (CFloat 0))) = Inr A"
    by blast
  then have "refresh_NV p = Inr (p\<lparr>index := ylabels p, columns := xlabels p, contents := A\<rparr>)"
    using assms by (simp add: refresh_NV_def)
  then show ?thesis by blast
qed

lemma refresh_ok:
  assumes "1 \<le> xlen p" "1 \<le> ylen p" "cls p = JuliaPlaneNV \<longrightarrow> xlen p = ylen p"
  shows "\<exists>A. refresh p = Inr (p\<lparr>index := ylabels p, columns := xlabels p, contents := A\<rparr>)"
proof (cases "cls p")
  case JuliaPlane
  then show ?thesis using refresh_NP_ok [of p] assms by (simp add: refresh_def)
next
  case JuliaPlaneNV
  then show ?thesis using refresh_NV_ok [of p] assms by (simp add: refresh_def)
qed

subsection \<open>Loading what was saved, with the default cap\<close>

text \<open>
  When the closure of an up-to-date plane has the cap 100, loading the parameters that
  the plane saved gives the plane back.
\<close>

lemma load_parameters_same:
  assumes "xlen p \<noteq> 1" "ylen p \<noteq> 1"
    and "xstep p = (xmax p - xmin p) / real_of_int (xlen p - 1)"
    and "ystep p = (ymax p - ymin p) / real_of_int (ylen p - 1)"
    and "func p = (case cls p of JuliaPlane \<Rightarrow> Closure_julia (cconst p) 100
                              | JuliaPlaneNV \<Rightarrow> Closure_juliaNV (cconst p) 100)"
    and "refresh p = Inr p"
  shows "load_parameters p (xmin p) (xmax p) (xlen p) (ymin p) (ymax p) (ylen p) (cconst p)
         = Inr p"
proof -
  have sx: "(xmax p - xmin p) / (real_of_int (xlen p) - 1) = xstep p"
    using assms(3) by simp
  have sy: "(ymax p - ymin p) / (real_of_int (ylen p) - 1) = ystep p"
    using assms(4) by simp
  have "set_f p (cconst p) 100 = refresh (p\<lparr>cconst := cconst p, func := func p\<rparr>)"
    unfolding set_f_def assms(5) [symmetric] ..
  then have "set_f p (cconst p) 100 = Inr p"
    using assms(6) by simp
  then show ?thesis
    using assms(1,2) by (simp add: load_parameters_def truediv_def sx sy)
qed

lemma round_trip_default_cap:
  assumes "xlen p \<noteq> 1" "ylen p \<noteq> 1"
    and "xstep p = (xmax p - xmin p) / real_of_int (xlen p - 1)"
    and "ystep p = (ymax p - ymin p) / real_of_int (ylen p - 1)"
    and "func p = (case cls p of JuliaPlane \<Rightarrow> Closure_julia (cconst p) 100
                              | JuliaPlaneNV \<Rightarrow> Closure_juliaNV (cconst p) 100)"
    and "refresh p = Inr p"
  shows "fromCSV p (toCSV p) = Inr p"
    and "toJSON p = Inr file \<Longrightarrow> fromJSON p file = Inr p"
proof -
  show "fromCSV p (toCSV p) = Inr p"
    using load_parameters_same [OF assms] by (simp add: fromCSV_def toCSV_def)
  assume "toJSON p = Inr file"
  then have "json_xmin file = xmin p" "json_xmax file = xmax p" "json_xlen file = xlen p"
    "json_ymin file = ymin p" "json_ymax file = ymax p" "json_ylen file = ylen p"
    "json_creal file = Re (cconst p)" "json_cimaginary file = Im (cconst p)"
    by (auto simp: toJSON_def Let_def split: if_splits)
  moreover have "complex_of_real (Re (cconst p)) + complex_of_real (Im (cconst p)) * \<i> = cconst p"
    by (simp add: complex_eq_iff)
  ultimately show "fromJSON p file = Inr p"
    using load_parameters_same [OF assms] by (simp add: fromJSON_def)
qed

lemma round_trip_example_planeNV:
  "fromCSV example_planeNV (toCSV example_planeNV) = Inr example_planeNV"
proof (rule round_trip_default_cap(1))
  show "refresh example_planeNV = Inr example_planeNV"
    by (simp add: example_planeNV_def eval_simps)
qed (simp_all add: example_planeNV_def)

subsection \<open>The claims about the planes\<close>

text \<open>
  C1 (the code at a failing input).  The claim says that after construction or refresh
  of the vectorized plane the cell at row \<open>i\<close>, column \<open>j\<close> is the escape function
  applied to the lattice coordinate, not the coordinate itself.  For
  \<^verbatim>\<open>JuliaPlane(3., 4., 2, 0., 1., 2, 0j, 100)\<close> the cell at row 0, column 0 is the
  coordinate \<open>3+0j\<close> itself, after construction and after \<^verbatim>\<open>refresh\<close>, while the escape
  function is 1 there (and 1 at \<open>3+1j\<close>, the coordinate that the row label names).
\<close>

theorem JuliaPlane_stores_raw_coordinates:
  "JuliaPlane_init 3 4 2 0 1 2 0 100 = Inr example_plane
   \<and> refresh example_plane = Inr example_plane
   \<and> contents example_plane ! 0 ! 0 = CComplex (Complex 3 0)
   \<and> julia 0 100 (Complex 3 0) = 1 \<and> julia 0 100 (Complex 3 1) = 1
   \<and> cell_value (contents example_plane ! 0 ! 0) \<noteq> of_int (julia 0 100 (Complex 3 0))
   \<and> cell_value (contents example_plane ! 0 ! 0) \<noteq> of_int (julia 0 100 (Complex 3 1))"
proof -
  have "julia 0 100 (Complex 3 0) = 1" "julia 0 100 (Complex 3 1) = 1"
    by (simp_all add: julia_def f_body_def cmod_Complex_le_2 int32_id)
  moreover have "contents example_plane ! 0 ! 0 = CComplex (Complex 3 0)"
    by (simp add: example_plane_def)
  ultimately show ?thesis
    by (simp add: JuliaPlane_init_example refresh_example complex_eq_iff)
qed

text \<open>
  C6 (as amended).  \<^verbatim>\<open>zoom\<close> checks nothing: for every plane with at least two points
  on each axis (and, for \<^verbatim>\<open>JuliaPlaneNV\<close>, as many rows as columns) and for all new
  bounds, ordered or not, \<^verbatim>\<open>zoom\<close> returns normally; the plane then has the new bounds,
  the same lengths, the steps recomputed from the new bounds, and the contents that
  \<^verbatim>\<open>refresh\<close> builds from them.
\<close>

theorem zoom_no_bounds_check:
  assumes "2 \<le> xlen p" and "2 \<le> ylen p" and "cls p = JuliaPlane \<or> xlen p = ylen p"
  shows "\<exists>p'. zoom p newXmin newXmax newYmin newYmax = Inr p'
          \<and> refresh (p\<lparr>xmin := newXmin, xmax := newXmax, ymin := newYmin, ymax := newYmax,
                        xstep := (newXmax - newXmin) / real_of_int (xlen p - 1),
                        ystep := (newYmax - newYmin) / real_of_int (ylen p - 1)\<rparr>) = Inr p'
          \<and> xmin p' = newXmin \<and> xmax p' = newXmax \<and> ymin p' = newYmin \<and> ymax p' = newYmax
          \<and> xlen p' = xlen p \<and> ylen p' = ylen p
          \<and> xstep p' = (newXmax - newXmin) / real_of_int (xlen p - 1)
          \<and> ystep p' = (newYmax - newYmin) / real_of_int (ylen p - 1)"
proof -
  define q where "q = p\<lparr>xmin := newXmin, xmax := newXmax, ymin := newYmin, ymax := newYmax,
                        xstep := (newXmax - newXmin) / real_of_int (xlen p - 1),
                        ystep := (newYmax - newYmin) / real_of_int (ylen p - 1)\<rparr>"
  have z: "zoom p newXmin newXmax newYmin newYmax = refresh q"
    using assms(1,2) by (simp add: zoom_def truediv_def q_def)
  have "\<exists>A. refresh q = Inr (q\<lparr>index := ylabels q, columns := xlabels q, contents := A\<rparr>)"
    by (rule refresh_ok) (use assms in \<open>auto simp: q_def\<close>)
  then obtain A where r: "refresh q = Inr (q\<lparr>index := ylabels q, columns := xlabels q, contents := A\<rparr>)"
    by blast
  show ?thesis
    using z r by (simp add: q_def)
qed

theorem zoom_no_bounds_check_witness:
  "2 \<le> xlen example_plane \<and> 2 \<le> ylen example_plane \<and> cls example_plane = JuliaPlane
   \<and> (\<exists>p'. zoom example_plane 1 0 0 1 = Inr p'
        \<and> xmin p' = 1 \<and> xmax p' = 0 \<and> ymin p' = 0 \<and> ymax p' = 1
        \<and> xlen p' = 2 \<and> ylen p' = 2 \<and> xstep p' = - 1 \<and> ystep p' = 1)"
proof -
  have h: "2 \<le> xlen example_plane" "2 \<le> ylen example_plane"
    "cls example_plane = JuliaPlane \<or> xlen example_plane = ylen example_plane"
    by (simp_all add: example_plane_def)
  have l: "xlen example_plane = 2" "ylen example_plane = 2" "cls example_plane = JuliaPlane"
    by (simp_all add: example_plane_def)
  from zoom_no_bounds_check [OF h, of 1 0 0 1]
  obtain p' where "zoom example_plane 1 0 0 1 = Inr p'"
    "xmin p' = 1" "xmax p' = 0" "ymin p' = 0" "ymax p' = 1"
    "xlen p' = 2" "ylen p' = 2" "xstep p' = - 1" "ystep p' = 1"
    by (auto simp: l)
  then show ?thesis using h(1,2) l(3) by blast
qed

text \<open>
  C6 (counterexample).  On the plane \<^verbatim>\<open>JuliaPlane(3., 4., 2, 0., 1., 2, 0j, 100)\<close> the
  call \<^verbatim>\<open>zoom(1., 0., 0., 1.)\<close>, whose new \<open>xmax\<close> is below the new \<open>xmin\<close>, raises
  nothing and changes \<open>xmin\<close>, \<open>xmax\<close>, \<open>xstep\<close> and the contents.
\<close>

theorem zoom_invalid_bounds_counterexample:
  "JuliaPlane_init 3 4 2 0 1 2 0 100 = Inr example_plane
   \<and> (0::real) \<le> 1
   \<and> \<not> isl (zoom example_plane 1 0 0 1)
   \<and> xmin example_plane = 3 \<and> xmin (projr (zoom example_plane 1 0 0 1)) = 1
   \<and> xmax example_plane = 4 \<and> xmax (projr (zoom example_plane 1 0 0 1)) = 0
   \<and> xstep example_plane = 1 \<and> xstep (projr (zoom example_plane 1 0 0 1)) = - 1
   \<and> contents (projr (zoom example_plane 1 0 0 1)) \<noteq> contents example_plane"
  by (simp add: JuliaPlane_init_example zoom_example) (simp add: example_plane_def)

text \<open>
  C7 (the code at a failing input).  The claim says that the vectorized and the
  non-vectorized plane of one configuration hold numerically identical grids.  For the
  configuration \<open>(3., 4., 2, 0., 1., 2, 0j, 100)\<close> the grid of \<^verbatim>\<open>JuliaPlane\<close> holds the
  four coordinates and the grid of \<^verbatim>\<open>JuliaPlaneNV\<close> holds four times the value 1.
  (The closures themselves agree: lemma \<open>julia_agrees_with_juliaNV\<close>.)
\<close>

theorem planes_differ:
  "JuliaPlane_init 3 4 2 0 1 2 0 100 = Inr example_plane
   \<and> JuliaPlaneNV_init 3 4 2 0 1 2 0 100 = Inr example_planeNV
   \<and> map (map cell_value) (contents example_plane) = [[Complex 3 0, Complex 4 0], [Complex 3 1, Complex 4 1]]
   \<and> map (map cell_value) (contents example_planeNV) = [[1, 1], [1, 1]]
   \<and> cell_value (contents example_plane ! 0 ! 0) \<noteq> cell_value (contents example_planeNV ! 0 ! 0)"
  by (simp add: JuliaPlane_init_example JuliaPlaneNV_init_example)
     (simp add: example_plane_def example_planeNV_def complex_eq_iff)

text \<open>
  C8 (the code at a failing input).  The claim says that row \<open>i\<close> of the stored grid
  holds the y-coordinate \<open>ymax - i*ystep\<close>, in agreement with the row labels.  In
  \<^verbatim>\<open>JuliaPlane(3., 4., 2, 0., 1., 2, 0j, 100)\<close> row 0 is labelled \<open>ymax = 1\<close> and holds
  the coordinates with imaginary part \<open>ymin = 0\<close>.  (Lemma \<open>refresh_NV_cells\<close> shows that
  \<^verbatim>\<open>JuliaPlaneNV.refresh\<close> has the claimed layout, lemma \<open>refresh_NP_cells\<close> that
  \<^verbatim>\<open>ComplexPlaneNP.refresh\<close> has the rows in the opposite order.)
\<close>

theorem JuliaPlane_rows_bottom_up:
  "JuliaPlane_init 3 4 2 0 1 2 0 100 = Inr example_plane
   \<and> index example_plane ! 0 = ymax example_plane - 0 * ystep example_plane
   \<and> index example_plane ! 0 = 1
   \<and> map (\<lambda>cell. Im (cell_value cell)) (contents example_plane ! 0) = [0, 0]
   \<and> Im (cell_value (contents example_plane ! 0 ! 0)) = ymin example_plane
   \<and> Im (cell_value (contents example_plane ! 0 ! 0)) \<noteq> ymax example_plane - 0 * ystep example_plane"
  by (simp add: JuliaPlane_init_example) (simp add: example_plane_def)

text \<open>
  C9 (the code at a failing input).  The claim says that saving the parameters of a
  plane and loading them again yields the same grid.  The plane
  \<^verbatim>\<open>JuliaPlaneNV(1.25, 2.5, 2, 0., 2., 2, 0j, 1)\<close> has the value 0 at row 1, column 0
  (from \<open>z0 = 1.25\<close> the loop reaches the cap 1 before the magnitude exceeds 2); the files do not hold the cap, the
  loaders call \<^verbatim>\<open>set_f\<close> with its default cap 100, and after \<^verbatim>\<open>toCSV\<close> and \<^verbatim>\<open>fromCSV\<close>,
  or \<^verbatim>\<open>toJSON\<close> and \<^verbatim>\<open>fromJSON\<close>, the value there is 1.  (With the cap 100 the grid
  is reproduced: lemma \<open>round_trip_default_cap\<close>.)
\<close>

theorem round_trip_changes_grid:
  "JuliaPlaneNV_init (5/4) (5/2) 2 0 2 2 0 1 = Inr example_cap1
   \<and> contents example_cap1 = [[CFloat 1, CFloat 1], [CFloat 0, CFloat 1]]
   \<and> \<not> isl (fromCSV example_cap1 (toCSV example_cap1))
   \<and> contents (projr (fromCSV example_cap1 (toCSV example_cap1)))
       = [[CFloat 1, CFloat 1], [CFloat 1, CFloat 1]]
   \<and> \<not> isl (toJSON example_cap1)
   \<and> \<not> isl (fromJSON example_cap1 (projr (toJSON example_cap1)))
   \<and> contents (projr (fromJSON example_cap1 (projr (toJSON example_cap1))))
       = [[CFloat 1, CFloat 1], [CFloat 1, CFloat 1]]"
  by (simp only: JuliaPlaneNV_init_cap1 fromCSV_toCSV_cap1 fromJSON_toJSON_cap1)
     (simp add: toJSON_cap1, simp add: example_cap1_def)

end
